theory Spec2Isabelle
  imports Complex_Main
begin

section \<open>Dates\<close>

text \<open>
  A JavaScript \<open>Date\<close> is an instant, a whole number of milliseconds. The calendar reads
  every instant through the local-time accessors (\<open>getHours\<close>, \<open>setHours\<close>,
  \<open>startOfDay\<close>, ...). The model counts milliseconds on the local wall clock from
  1970-01-01T00:00 local time and takes the zone to have a fixed offset (no daylight-saving
  jumps), so that every local day has 86400000 milliseconds.
\<close>

type_synonym Date = int

definition millisecondsInMinute :: int where
  "millisecondsInMinute = 60000"

definition millisecondsInHour :: int where
  "millisecondsInHour = 3600000"

definition millisecondsInDay :: int where
  "millisecondsInDay = 86400000"

text \<open>
  \<open>new Date(year, monthIndex, day, hours, minutes, seconds, ms)\<close>, with the month
  counted from 1 here. The day number of a civil date is computed with the usual
  era/day-of-era arithmetic of the proleptic Gregorian calendar.
\<close>

definition daysFromCivil :: "int \<Rightarrow> int \<Rightarrow> int \<Rightarrow> int" where
  "daysFromCivil y m d =
     (let y' = (if m \<le> 2 then y - 1 else y);
          era = y' div 400;
          yoe = y' - era * 400;
          doy = (153 * (if m > 2 then m - 3 else m + 9) + 2) div 5 + d - 1;
          doe = yoe * 365 + yoe div 4 - yoe div 100 + doy
      in era * 146097 + doe - 719468)"

definition mkDate :: "int \<Rightarrow> int \<Rightarrow> int \<Rightarrow> int \<Rightarrow> int \<Rightarrow> int \<Rightarrow> int \<Rightarrow> Date" where
  "mkDate y m d h mi s ms =
     daysFromCivil y m d * millisecondsInDay + h * millisecondsInHour
       + mi * millisecondsInMinute + s * 1000 + ms"

text \<open>The civil date (year, month from 1, day of month) of a day number.\<close>

definition civilFromDays :: "int \<Rightarrow> int \<times> int \<times> int" where
  "civilFromDays z0 =
     (let z = z0 + 719468;
          era = z div 146097;
          doe = z - era * 146097;
          yoe = (doe - doe div 1460 + doe div 36524 - doe div 146096) div 365;
          doy = doe - (365 * yoe + yoe div 4 - yoe div 100);
          mp = (5 * doy + 2) div 153;
          d = doy - (153 * mp + 2) div 5 + 1;
          m = (if mp < 10 then mp + 3 else mp - 9);
          y = yoe + era * 400 + (if m \<le> 2 then 1 else 0)
      in (y, m, d))"

definition getFullYear :: "Date \<Rightarrow> int" where
  "getFullYear d = fst (civilFromDays (d div millisecondsInDay))"

definition getMonth1 :: "Date \<Rightarrow> int" where
  "getMonth1 d = fst (snd (civilFromDays (d div millisecondsInDay)))"

definition getHours :: "Date \<Rightarrow> int" where
  "getHours d = (d mod millisecondsInDay) div millisecondsInHour"

definition getMinutes :: "Date \<Rightarrow> int" where
  "getMinutes d = (d mod millisecondsInHour) div millisecondsInMinute"

text \<open>\<open>getDay\<close>: 0 is Sunday, 6 is Saturday; 1970-01-01 was a Thursday.\<close>

definition getDay :: "Date \<Rightarrow> int" where
  "getDay d = (d div millisecondsInDay + 4) mod 7"

subsection \<open>The functions of date-fns that the calendar calls\<close>

definition startOfDay :: "Date \<Rightarrow> Date" where
  "startOfDay d = d - d mod millisecondsInDay"

definition endOfDay :: "Date \<Rightarrow> Date" where
  "endOfDay d = startOfDay d + 23 * millisecondsInHour + 59 * millisecondsInMinute + 59 * 1000 + 999"

text \<open>\<open>date.setHours(h, m, s, ms)\<close>, returning the changed date.\<close>

definition setHours :: "Date \<Rightarrow> int \<Rightarrow> int \<Rightarrow> int \<Rightarrow> int \<Rightarrow> Date" where
  "setHours d h m s ms =
     startOfDay d + h * millisecondsInHour + m * millisecondsInMinute + s * 1000 + ms"

definition isSameDay :: "Date \<Rightarrow> Date \<Rightarrow> bool" where
  "isSameDay l r = (startOfDay l = startOfDay r)"

text \<open>
  \<open>differenceInMinutes\<close> divides the elapsed milliseconds between two instants and rounds
  the quotient towards zero. With a fixed offset the elapsed time between two instants is
  the difference of their wall-clock readings; on a local day with a clock change (23 or 25
  hours long) the two differ, and such days are outside this model.
\<close>

definition differenceInMinutes :: "Date \<Rightarrow> Date \<Rightarrow> int" where
  "differenceInMinutes l r =
     (let diff = l - r
      in if 0 \<le> diff then diff div millisecondsInMinute
         else - ((- diff) div millisecondsInMinute))"

text \<open>
  \<open>startOfWeek\<close> and \<open>endOfWeek\<close> with the option \<open>weekStartsOn\<close> (0 for Sunday,
  the default).
\<close>

definition startOfWeek :: "Date \<Rightarrow> int \<Rightarrow> Date" where
  "startOfWeek d weekStartsOn =
     (let day = getDay d;
          diff = (if day < weekStartsOn then 7 else 0) + day - weekStartsOn
      in startOfDay d - diff * millisecondsInDay)"

definition endOfWeek :: "Date \<Rightarrow> int \<Rightarrow> Date" where
  "endOfWeek d weekStartsOn =
     (let day = getDay d;
          diff = (if day < weekStartsOn then - 7 else 0) + 6 - (day - weekStartsOn)
      in endOfDay (d + diff * millisecondsInDay))"

definition startOfMonth :: "Date \<Rightarrow> Date" where
  "startOfMonth d = mkDate (getFullYear d) (getMonth1 d) 1 0 0 0 0"

definition endOfMonth :: "Date \<Rightarrow> Date" where
  "endOfMonth d =
     (let y = getFullYear d; m = getMonth1 d
      in (if m = 12 then mkDate (y + 1) 1 1 0 0 0 0 else mkDate y (m + 1) 1 0 0 0 0) - 1)"

definition startOfYear :: "Date \<Rightarrow> Date" where
  "startOfYear d = mkDate (getFullYear d) 1 1 0 0 0 0"

definition endOfYear :: "Date \<Rightarrow> Date" where
  "endOfYear d = mkDate (getFullYear d + 1) 1 1 0 0 0 0 - 1"

text \<open>
  Errors are values. \<open>RangeError\<close> is what date-fns throws, \<open>Error\<close> what the storage
  layer throws itself, \<open>DatabaseError\<close> what the database driver throws when it refuses a
  statement.
\<close>

datatype error = RangeError string | Error string | DatabaseError

text \<open>
  The sources do not pin the release of date-fns, and the two major releases in use differ
  on an interval whose end lies before its start: release 2 throws
  \<open>RangeError('Invalid interval')\<close>, release 3 orders the two ends first. The release
  is a parameter of the model; on intervals with start \<open>\<le>\<close> end both agree.
\<close>

datatype datefns = DateFns2 | DateFns3

type_synonym Interval = "Date \<times> Date"

text \<open>\<open>areIntervalsOverlapping(left, right)\<close>, without the option \<open>inclusive\<close>.\<close>

definition areIntervalsOverlapping :: "datefns \<Rightarrow> Interval \<Rightarrow> Interval \<Rightarrow> error + bool" where
  "areIntervalsOverlapping ver left right =
     (case ver of
        DateFns2 \<Rightarrow>
          (if \<not> (fst left \<le> snd left \<and> fst right \<le> snd right)
           then Inl (RangeError ''Invalid interval'')
           else Inr (fst left < snd right \<and> fst right < snd left))
      | DateFns3 \<Rightarrow>
          (let leftStartTime = min (fst left) (snd left);
               leftEndTime = max (fst left) (snd left);
               rightStartTime = min (fst right) (snd right);
               rightEndTime = max (fst right) (snd right)
           in Inr (leftStartTime < rightEndTime \<and> rightStartTime < leftEndTime)))"

definition isWithinInterval :: "datefns \<Rightarrow> Date \<Rightarrow> Interval \<Rightarrow> error + bool" where
  "isWithinInterval ver time interval =
     (case ver of
        DateFns2 \<Rightarrow>
          (if \<not> (fst interval \<le> snd interval)
           then Inl (RangeError ''Invalid interval'')
           else Inr (time \<ge> fst interval \<and> time \<le> snd interval))
      | DateFns3 \<Rightarrow>
          (let startTime = min (fst interval) (snd interval);
               endTime = max (fst interval) (snd interval)
           in Inr (time \<ge> startTime \<and> time \<le> endTime)))"

text \<open>
  \<open>eachDayOfInterval\<close>: the start of every day from the day of \<open>start\<close> to the day of
  \<open>end\<close>. The calendar calls it on a week or a month, where start \<open>\<le>\<close> end.
\<close>

definition eachDayOfInterval :: "Date \<Rightarrow> Date \<Rightarrow> Date list" where
  "eachDayOfInterval start end' =
     map (\<lambda>i. startOfDay start + int i * millisecondsInDay)
       [0 ..< nat ((end' - startOfDay start) div millisecondsInDay + 1)]"

text \<open>
  \<open>Array.prototype.filter\<close> and \<open>map\<close> with a callback that may throw: the callback runs
  on the elements from left to right and the first error ends the call.
\<close>

fun filter_throwing :: "('a \<Rightarrow> error + bool) \<Rightarrow> 'a list \<Rightarrow> error + 'a list" where
  "filter_throwing p [] = Inr []"
| "filter_throwing p (x # xs) =
     (case p x of
        Inl e \<Rightarrow> Inl e
      | Inr b \<Rightarrow>
          (case filter_throwing p xs of
             Inl e \<Rightarrow> Inl e
           | Inr ys \<Rightarrow> Inr (if b then x # ys else ys)))"

fun map_throwing :: "('a \<Rightarrow> error + 'b) \<Rightarrow> 'a list \<Rightarrow> error + 'b list" where
  "map_throwing f [] = Inr []"
| "map_throwing f (x # xs) =
     (case f x of
        Inl e \<Rightarrow> Inl e
      | Inr y \<Rightarrow>
          (case map_throwing f xs of
             Inl e \<Rightarrow> Inl e
           | Inr ys \<Rightarrow> Inr (y # ys)))"

section \<open>The shared schema\<close>

text \<open>A row of the table \<open>events\<close>; a column that is not \<open>notNull\<close> may hold null.\<close>

record DbEvent =
  db_id :: int
  db_userId :: "int option"
  db_title :: string
  db_description :: "string option"
  db_startDate :: Date
  db_endDate :: Date
  db_allDay :: bool
  db_color :: "string option"
  db_location :: "string option"
  db_notifications :: "bool option"
  db_createdAt :: "Date option"
  db_updatedAt :: "Date option"

text \<open>The domain type \<open>Event\<close>.\<close>

record Event =
  event_id :: int
  userId :: int
  title :: string
  description :: "string option"
  startDate :: Date
  endDate :: Date
  allDay :: bool
  color :: string
  location :: "string option"
  notifications :: bool
  createdAt :: "Date option"
  updatedAt :: "Date option"

section \<open>Storage: events\<close>

definition defaultUserId :: int where
  "defaultUserId = 1"

definition mapDbEventToEvent :: "DbEvent \<Rightarrow> error + Event" where
  "mapDbEventToEvent dbEvent =
     (case db_userId dbEvent of
        None \<Rightarrow> Inl (Error ''Event has no user ID'')
      | Some uid \<Rightarrow>
          Inr \<lparr> event_id = db_id dbEvent,
                userId = uid,
                title = db_title dbEvent,
                description = db_description dbEvent,
                startDate = db_startDate dbEvent,
                endDate = db_endDate dbEvent,
                allDay = db_allDay dbEvent,
                color = (case db_color dbEvent of None \<Rightarrow> ''#3498db'' | Some c \<Rightarrow> c),
                location = db_location dbEvent,
                notifications = (case db_notifications dbEvent of None \<Rightarrow> False | Some b \<Rightarrow> b),
                createdAt = db_createdAt dbEvent,
                updatedAt = db_updatedAt dbEvent \<rparr>)"


text \<open>
  The parameter \<open>userId\<close> is optional and defaults to \<open>defaultUserId\<close>. SQL's \<open>=\<close> is
  never true on null, so \<open>eq(events.userId, userId)\<close> keeps the rows whose user id is
  present and equal. \<open>orderBy\<close> is a sort on the start date (the order among equal start
  dates is the database's choice; the model keeps the table's).
\<close>

definition getEvents :: "int option \<Rightarrow> DbEvent list \<Rightarrow> error + Event list" where
  "getEvents userIdArg events =
     (let uid = (case userIdArg of None \<Rightarrow> defaultUserId | Some u \<Rightarrow> u);
          dbEvents = sort_key (\<lambda>r. - db_startDate r)
                       (filter (\<lambda>r. db_userId r = Some uid) events)
      in map_throwing mapDbEventToEvent dbEvents)"

definition getEventsByDateRange ::
  "Date \<Rightarrow> Date \<Rightarrow> int option \<Rightarrow> DbEvent list \<Rightarrow> error + Event list" where
  "getEventsByDateRange start end' userIdArg events =
     (let uid = (case userIdArg of None \<Rightarrow> defaultUserId | Some u \<Rightarrow> u);
          dbEvents = sort_key db_startDate
                       (filter (\<lambda>r. db_userId r = Some uid
                                     \<and> db_startDate r \<ge> start
                                     \<and> db_endDate r \<le> end') events)
      in map_throwing mapDbEventToEvent dbEvents)"

section \<open>The day view and the week view\<close>

text \<open>
  \<open>format(date, 'h:mm a')\<close> and \<open>format(date, 'yyyy-MM-dd')\<close> (years 0 to 9999).
\<close>

definition digit :: "int \<Rightarrow> char" where
  "digit n = ''0123456789'' ! nat n"

definition format_h_mm_a :: "Date \<Rightarrow> string" where
  "format_h_mm_a d =
     (let h = getHours d;
          m = getMinutes d;
          h12 = (if h mod 12 = 0 then 12 else h mod 12)
      in (if h12 < 10 then [digit h12] else [digit (h12 div 10), digit (h12 mod 10)])
         @ '':'' @ [digit (m div 10), digit (m mod 10)]
         @ '' '' @ (if h < 12 then ''AM'' else ''PM''))"

definition format_yyyy_MM_dd :: "Date \<Rightarrow> string" where
  "format_yyyy_MM_dd t =
     (case civilFromDays (t div millisecondsInDay) of
        (y, m, d) \<Rightarrow>
          [digit (y div 1000 mod 10), digit (y div 100 mod 10), digit (y div 10 mod 10),
           digit (y mod 10)]
          @ ''-'' @ [digit (m div 10), digit (m mod 10)]
          @ ''-'' @ [digit (d div 10), digit (d mod 10)])"

text \<open>
  A positioned event is the event (the spread \<open>...event\<close>) with four more fields.
  JavaScript numbers are modelled by exact rationals.
\<close>

record PositionedEvent =
  ev :: Event
  topPercentage :: rat
  heightPercentage :: rat
  displayStartTime :: string
  displayEndTime :: string

text \<open>
  The callback that positions one event on one day is the same text in \<open>DayView\<close>
  (with \<open>currentDate\<close> for the day) and in \<open>WeekView\<close>. Its local variables
  \<open>startMinutes\<close> and \<open>durationMinutes\<close> are functions of the day and the event.
\<close>

definition startMinutes :: "Date \<Rightarrow> Event \<Rightarrow> int" where
  "startMinutes day event =
     (let eventStart = startDate event;
          dayStart = startOfDay day;
          eventStartHour =
            setHours dayStart
              (if isSameDay eventStart day then getHours eventStart else 0)
              (if isSameDay eventStart day then getMinutes eventStart else 0)
              0 0
      in getHours eventStartHour * 60 + getMinutes eventStartHour)"

definition durationMinutes :: "Date \<Rightarrow> Event \<Rightarrow> int" where
  "durationMinutes day event =
     (let eventStart = startDate event;
          eventEnd = endDate event
      in if \<not> isSameDay eventStart eventEnd
         then differenceInMinutes (endOfDay day) eventStart
         else differenceInMinutes eventEnd eventStart)"

definition positionEvent :: "Date \<Rightarrow> Event \<Rightarrow> PositionedEvent" where
  "positionEvent day event =
     (let topPercentage = (of_int (startMinutes day event) / (24 * 60)) * 100;
          heightPercentage = (of_int (durationMinutes day event) / (24 * 60)) * 100
      in \<lparr> ev = event,
           topPercentage = topPercentage,
           heightPercentage = max heightPercentage 1,
           displayStartTime = format_h_mm_a (startDate event),
           displayEndTime = format_h_mm_a (endDate event) \<rparr>)"

subsection \<open>DayView\<close>

text \<open>\<open>event.allDay && isWithinInterval(...)\<close> calls the library only on an all-day event.\<close>

definition allDayEvents :: "datefns \<Rightarrow> Date \<Rightarrow> Event list \<Rightarrow> error + Event list" where
  "allDayEvents ver currentDate events =
     filter_throwing
       (\<lambda>event. if allDay event
                 then isWithinInterval ver currentDate (startDate event, endDate event)
                 else Inr False)
       events"

definition processedEvents_DayView ::
  "datefns \<Rightarrow> Date \<Rightarrow> Event list \<Rightarrow> error + PositionedEvent list" where
  "processedEvents_DayView ver currentDate events =
     (let timedEvents = filter (\<lambda>event. \<not> allDay event) events
      in filter_throwing
           (\<lambda>event. areIntervalsOverlapping ver
                       (startOfDay currentDate, endOfDay currentDate)
                       (startDate (ev event), endDate (ev event)))
           (map (positionEvent currentDate) timedEvents))"

subsection \<open>WeekView\<close>

definition weekDays :: "Date \<Rightarrow> Date list" where
  "weekDays currentDate =
     eachDayOfInterval (startOfWeek currentDate 0) (endOfWeek currentDate 0)"

text \<open>The body of \<open>weekDays.forEach\<close>: the positioned events of one day.\<close>

definition processedDayEvents ::
  "datefns \<Rightarrow> Event list \<Rightarrow> Date \<Rightarrow> error + PositionedEvent list" where
  "processedDayEvents ver events day =
     (let dayStart = startOfDay day
      in case filter_throwing
                (\<lambda>event. if allDay event then Inr False
                          else areIntervalsOverlapping ver
                                 (dayStart, endOfDay day)
                                 (startDate event, endDate event))
                events of
           Inl e \<Rightarrow> Inl e
         | Inr dayEvents \<Rightarrow> Inr (map (positionEvent day) dayEvents))"

text \<open>
  The map \<open>eventsByDay\<close>, as the list of its entries in the order of insertion; the seven
  keys are different, so no \<open>set\<close> replaces an entry.
\<close>

definition processedEvents_WeekView ::
  "datefns \<Rightarrow> Date \<Rightarrow> Event list \<Rightarrow> error + (string \<times> PositionedEvent list) list" where
  "processedEvents_WeekView ver currentDate events =
     map_throwing
       (\<lambda>day. case processedDayEvents ver events day of
                 Inl e \<Rightarrow> Inl e
               | Inr processedDay \<Rightarrow> Inr (format_yyyy_MM_dd day, processedDay))
       (weekDays currentDate)"

definition getAllDayEventsForDay :: "datefns \<Rightarrow> Event list \<Rightarrow> Date \<Rightarrow> error + Event list" where
  "getAllDayEventsForDay ver events day =
     (let dayStart = startOfDay day;
          dayEnd = endOfDay day
      in filter_throwing
           (\<lambda>event. if allDay event
                     then areIntervalsOverlapping ver (dayStart, dayEnd)
                            (startDate event, endDate event)
                     else Inr False)
           events)"

text \<open>The top and the height of every positioned event of a result.\<close>

definition positions :: "error + PositionedEvent list \<Rightarrow> error + (rat \<times> rat) list" where
  "positions res = map_sum id (map (\<lambda>r. (topPercentage r, heightPercentage r))) res"

text \<open>
  The duration in the words of the specification, for comparison with \<open>durationMinutes\<close>:
  the event's interval is clamped to the day (\<open>effectiveStart = max(E.startDate, dayStart)\<close>,
  \<open>effectiveEnd = min(E.endDate, dayEnd)\<close>) and the duration is
  \<open>effectiveEnd - effectiveStart\<close> in whole minutes.
\<close>

definition specDurationMinutes :: "Date \<Rightarrow> Event \<Rightarrow> int" where
  "specDurationMinutes day event =
     (let dayStart = startOfDay day;
          dayEnd = endOfDay day;
          effectiveStart = max (startDate event) dayStart;
          effectiveEnd = min (endDate event) dayEnd
      in differenceInMinutes effectiveEnd effectiveStart)"

section \<open>The visible range\<close>

datatype CalendarViewType = Year | Month | Week | Day

text \<open>
  \<open>dateRange\<close> of the hook \<open>useCalendar\<close> (the page \<open>Calendar\<close> has the same switch as
  \<open>getDateRange\<close>). The \<open>default\<close> branch of the switch is unreachable for a value of
  the type. The week is asked for with \<open>weekStartsOn: 0\<close>; the function reads no setting.
\<close>

definition dateRange :: "CalendarViewType \<Rightarrow> Date \<Rightarrow> Date \<times> Date" where
  "dateRange view currentDate =
     (case view of
        Year \<Rightarrow> (startOfYear currentDate, endOfYear currentDate)
      | Month \<Rightarrow> (startOfMonth currentDate, endOfMonth currentDate)
      | Week \<Rightarrow> (startOfWeek currentDate 0, endOfWeek currentDate 0)
      | Day \<Rightarrow> (startOfDay currentDate, endOfDay currentDate))"

text \<open>
  The week window in the words of the specification, for comparison with \<open>dateRange\<close>:
  the start is the most recent occurrence of the configured first day of the week at or
  before the anchor, at 00:00:00; the end is 6 days later at 23:59:59.999.
\<close>

datatype WeekStart = Sunday | Monday

definition specWeekWindow :: "WeekStart \<Rightarrow> Date \<Rightarrow> Date \<times> Date" where
  "specWeekWindow weekStart anchor =
     (let first = (case weekStart of Sunday \<Rightarrow> 0 | Monday \<Rightarrow> 1);
          back = (getDay anchor - first) mod 7;
          start = startOfDay anchor - back * millisecondsInDay
      in (start, start + 6 * millisecondsInDay + (millisecondsInDay - 1)))"

section \<open>Storage: settings\<close>

text \<open>
  \<open>CalendarSettings\<close>. The values are the strings that travel in the request body and sit
  in the text columns of the table; the type \<open>Partial<CalendarSettings>\<close> is a record of
  optional fields.
\<close>

record CalendarSettings =
  cs_theme :: string
  cs_startOfWeek :: string
  cs_timeFormat :: string
  cs_eventDisplayMode :: string

record PartialCalendarSettings =
  new_theme :: "string option"
  new_startOfWeek :: "string option"
  new_timeFormat :: "string option"
  new_eventDisplayMode :: "string option"

text \<open>A row of the table \<open>settings\<close>.\<close>

record CalendarSetting =
  st_id :: int
  st_userId :: "int option"
  st_theme :: string
  st_startOfWeek :: string
  st_timeFormat :: string
  st_eventDisplayMode :: string

text \<open>
  \<open>a || b\<close> on strings: the empty string is falsy. \<open>or_existing\<close> is the same for a field
  of the partial record, where an absent field is \<open>undefined\<close>.
\<close>

definition or_default :: "string \<Rightarrow> string \<Rightarrow> string" where
  "or_default a b = (if a = [] then b else a)"

definition or_existing :: "string option \<Rightarrow> string \<Rightarrow> string" where
  "or_existing a b = (case a of None \<Rightarrow> b | Some s \<Rightarrow> or_default s b)"

text \<open>The object that \<open>getSettings\<close> and \<open>updateSettings\<close> build from a row.\<close>

definition toCalendarSettings :: "CalendarSetting \<Rightarrow> CalendarSettings" where
  "toCalendarSettings setting =
     \<lparr> cs_theme = st_theme setting,
       cs_startOfWeek = st_startOfWeek setting,
       cs_timeFormat = st_timeFormat setting,
       cs_eventDisplayMode = or_default (st_eventDisplayMode setting) ''dots'' \<rparr>"

definition getSettings :: "int option \<Rightarrow> CalendarSetting list \<Rightarrow> CalendarSettings" where
  "getSettings userIdArg settings =
     (let uid = (case userIdArg of None \<Rightarrow> defaultUserId | Some u \<Rightarrow> u);
          userSettings = filter (\<lambda>r. st_userId r = Some uid) settings
      in case userSettings of
           setting # _ \<Rightarrow> toCalendarSettings setting
         | [] \<Rightarrow> \<lparr> cs_theme = ''dark'', cs_startOfWeek = ''sunday'',
                   cs_timeFormat = ''12h'', cs_eventDisplayMode = ''dots'' \<rparr>)"

text \<open>The next value of the \<open>serial\<close> column \<open>id\<close>.\<close>

definition nextSerial :: "CalendarSetting list \<Rightarrow> int" where
  "nextSerial settings = fold max (map st_id settings) 0 + 1"

text \<open>
  \<open>updateSettings\<close> returns the settings and the table \<open>settings\<close> after the write, or
  the error it throws. The \<open>update\<close> sets the four columns of every row of the user;
  \<open>returning()\<close> lists the updated rows, and \<open>[updated]\<close> is the first of them, the
  updated first existing row. The column \<open>settings.user_id\<close> references \<open>users.id\<close>:
  the \<open>insert\<close> of a row for a user id that the table \<open>users\<close> does not hold violates
  the foreign key, and the driver throws. \<open>users\<close> is the list of the ids in the table
  \<open>users\<close> (\<open>initializeDatabase\<close> creates the user 1 and no code creates another);
  they are 32-bit integers, so that a user id beyond that range is in no table, and the
  driver refuses it as well.
\<close>

definition updateSettings ::
  "PartialCalendarSettings \<Rightarrow> int option \<Rightarrow> int list \<Rightarrow> CalendarSetting list
     \<Rightarrow> error + (CalendarSettings \<times> CalendarSetting list)" where
  "updateSettings newSettings userIdArg users settings =
     (let uid = (case userIdArg of None \<Rightarrow> defaultUserId | Some u \<Rightarrow> u);
          existingSettings = filter (\<lambda>r. st_userId r = Some uid) settings
      in case existingSettings of
           existing # _ \<Rightarrow>
             (let set' = (\<lambda>r. r\<lparr> st_theme := or_existing (new_theme newSettings) (st_theme existing),
                                   st_startOfWeek :=
                                     or_existing (new_startOfWeek newSettings) (st_startOfWeek existing),
                                   st_timeFormat :=
                                     or_existing (new_timeFormat newSettings) (st_timeFormat existing),
                                   st_eventDisplayMode :=
                                     or_existing (new_eventDisplayMode newSettings)
                                       (or_default (st_eventDisplayMode existing) ''dots'') \<rparr>);
                  updated = set' existing
              in Inr (toCalendarSettings updated,
                      map (\<lambda>r. if st_userId r = Some uid then set' r else r) settings))
         | [] \<Rightarrow>
             (let created = \<lparr> st_id = nextSerial settings,
                               st_userId = Some uid,
                               st_theme = or_existing (new_theme newSettings) ''dark'',
                               st_startOfWeek = or_existing (new_startOfWeek newSettings) ''sunday'',
                               st_timeFormat = or_existing (new_timeFormat newSettings) ''12h'',
                               st_eventDisplayMode =
                                 or_existing (new_eventDisplayMode newSettings) ''dots'' \<rparr>
              in if uid \<in> set users
                 then Inr (toCalendarSettings created, settings @ [created])
                 else Inl DatabaseError))"

text \<open>
  The route \<open>POST /api/settings\<close>: the body goes to \<open>updateSettings\<close> as it is, and the
  answer is the settings with status 200. When \<open>updateSettings\<close> throws, the \<open>catch\<close>
  branch answers with status 500, and nothing has been written.
\<close>

datatype response = Json nat CalendarSettings | JsonError nat string

definition post_api_settings ::
  "int option \<Rightarrow> PartialCalendarSettings \<Rightarrow> int list \<Rightarrow> CalendarSetting list
     \<Rightarrow> response \<times> CalendarSetting list" where
  "post_api_settings queryUserId body users settings =
     (case updateSettings body queryUserId users settings of
        Inr (updatedSettings, settings') \<Rightarrow> (Json 200 updatedSettings, settings')
      | Inl error \<Rightarrow> (JsonError 500 ''Failed to update settings'', settings))"

text \<open>
  The enumerations of \<open>calendarSettingsSchema\<close>, as a predicate on a partial record: every
  field that is present holds one of its values.
\<close>

definition validPartial :: "PartialCalendarSettings \<Rightarrow> bool" where
  "validPartial p =
     ((case new_theme p of None \<Rightarrow> True | Some v \<Rightarrow> v = ''dark'' \<or> v = ''light'')
      \<and> (case new_startOfWeek p of None \<Rightarrow> True | Some v \<Rightarrow> v = ''sunday'' \<or> v = ''monday'')
      \<and> (case new_timeFormat p of None \<Rightarrow> True | Some v \<Rightarrow> v = ''12h'' \<or> v = ''24h'')
      \<and> (case new_eventDisplayMode p of
            None \<Rightarrow> True
          | Some v \<Rightarrow> v = ''dots'' \<or> v = ''text'' \<or> v = ''box'' \<or> v = ''color''))"

text \<open>
  The merge in the words of the specification: a field that is present overrides, a field
  that is omitted keeps the old value. \<open>written c r\<close> is the row \<open>r\<close> with the four
  settings of \<open>c\<close> in its columns.
\<close>

definition merged :: "string option \<Rightarrow> string \<Rightarrow> string" where
  "merged new old = (case new of None \<Rightarrow> old | Some v \<Rightarrow> v)"

definition written :: "CalendarSettings \<Rightarrow> CalendarSetting \<Rightarrow> CalendarSetting" where
  "written c r = r\<lparr> st_theme := cs_theme c, st_startOfWeek := cs_startOfWeek c,
                    st_timeFormat := cs_timeFormat c,
                    st_eventDisplayMode := cs_eventDisplayMode c \<rparr>"

text \<open>
  \<open>mergedSettings p base\<close> merges the four fields; \<open>settingsRow i u c\<close> is the row with
  id \<open>i\<close> of user \<open>u\<close> that holds \<open>c\<close>.
\<close>

definition mergedSettings :: "PartialCalendarSettings \<Rightarrow> CalendarSettings \<Rightarrow> CalendarSettings" where
  "mergedSettings p base =
     \<lparr> cs_theme = merged (new_theme p) (cs_theme base),
       cs_startOfWeek = merged (new_startOfWeek p) (cs_startOfWeek base),
       cs_timeFormat = merged (new_timeFormat p) (cs_timeFormat base),
       cs_eventDisplayMode = merged (new_eventDisplayMode p) (cs_eventDisplayMode base) \<rparr>"

definition settingsRow :: "int \<Rightarrow> int \<Rightarrow> CalendarSettings \<Rightarrow> CalendarSetting" where
  "settingsRow i u c =
     \<lparr> st_id = i, st_userId = Some u, st_theme = cs_theme c,
       st_startOfWeek = cs_startOfWeek c, st_timeFormat = cs_timeFormat c,
       st_eventDisplayMode = cs_eventDisplayMode c \<rparr>"

subsection \<open>Rows for the examples\<close>

text \<open>A row with the given id, owner, start, end and all-day flag, every other column at its default.\<close>

definition eventRow :: "int \<Rightarrow> int option \<Rightarrow> Date \<Rightarrow> Date \<Rightarrow> bool \<Rightarrow> DbEvent" where
  "eventRow i u s e a =
     \<lparr> db_id = i, db_userId = u, db_title = ''Event'', db_description = None,
       db_startDate = s, db_endDate = e, db_allDay = a, db_color = None,
       db_location = None, db_notifications = None, db_createdAt = None,
       db_updatedAt = None \<rparr>"

text \<open>The event that \<open>mapDbEventToEvent\<close> makes of such a row.\<close>

definition eventOf :: "int \<Rightarrow> int \<Rightarrow> Date \<Rightarrow> Date \<Rightarrow> bool \<Rightarrow> Event" where
  "eventOf i u s e a =
     \<lparr> event_id = i, userId = u, title = ''Event'', description = None,
       startDate = s, endDate = e, allDay = a, color = ''#3498db'',
       location = None, notifications = False, createdAt = None,
       updatedAt = None \<rparr>"

section \<open>Facts about the helpers\<close>

lemma map_throwing_total:
  "(\<And>x. x \<in> set xs \<Longrightarrow> f x = Inr (g x)) \<Longrightarrow> map_throwing f xs = Inr (map g xs)"
  by (induction xs) auto

lemma mapDbEventToEvent_user:
  "db_userId r = Some u \<Longrightarrow> \<exists>ev. mapDbEventToEvent r = Inr ev \<and> userId ev = u
      \<and> startDate ev = db_startDate r \<and> endDate ev = db_endDate r \<and> event_id ev = db_id r"
  by (simp add: mapDbEventToEvent_def)

lemma map_throwing_users:
  "\<forall>r\<in>set rs. db_userId r = Some u \<Longrightarrow>
     \<exists>es. map_throwing mapDbEventToEvent rs = Inr es \<and> (\<forall>e\<in>set es. userId e = u)"
proof (induction rs)
  case Nil
  then show ?case by simp
next
  case (Cons r rs)
  then obtain es where es: "map_throwing mapDbEventToEvent rs = Inr es" "\<forall>e\<in>set es. userId e = u"
    by auto
  from Cons.prems obtain ev where ev: "mapDbEventToEvent r = Inr ev" "userId ev = u"
    using mapDbEventToEvent_user[of r u] by auto
  show ?case using es ev by simp
qed

lemma map_throwing_source:
  "map_throwing f xs = Inr ys \<Longrightarrow> y \<in> set ys \<Longrightarrow> \<exists>x\<in>set xs. f x = Inr y"
proof (induction xs arbitrary: ys)
  case Nil
  then show ?case by simp
next
  case (Cons x xs)
  then show ?case
    by (auto split: sum.splits)
qed

lemma filter_throwing_total:
  "(\<And>x. x \<in> set xs \<Longrightarrow> p x = Inr (q x)) \<Longrightarrow> filter_throwing p xs = Inr (filter q xs)"
  by (induction xs) auto

lemma filter_throwing_subset:
  "filter_throwing p xs = Inr ys \<Longrightarrow> set ys \<subseteq> set xs"
proof (induction xs arbitrary: ys)
  case Nil
  then show ?case by simp
next
  case (Cons x xs)
  then show ?case
    by (auto split: sum.splits if_splits)
qed

text \<open>What the range query keeps: the user's events that lie inside the window.\<close>

lemma getEventsByDateRange_inside_window:
  assumes "getEventsByDateRange start end' userIdArg events = Inr es" "e \<in> set es"
  shows "start \<le> startDate e \<and> endDate e \<le> end'"
proof -
  define uid where "uid = (case userIdArg of None \<Rightarrow> defaultUserId | Some u \<Rightarrow> u)"
  define rows where "rows = sort_key db_startDate
      (filter (\<lambda>r. db_userId r = Some uid \<and> db_startDate r \<ge> start \<and> db_endDate r \<le> end')
         events)"
  have "map_throwing mapDbEventToEvent rows = Inr es"
    using assms(1) unfolding getEventsByDateRange_def Let_def rows_def uid_def .
  from map_throwing_source[OF this assms(2)]
  obtain r where r: "r \<in> set rows" "mapDbEventToEvent r = Inr e"
    by blast
  from r(1) have in_window: "db_startDate r \<ge> start" "db_endDate r \<le> end'"
    and u: "db_userId r = Some uid"
    unfolding rows_def by simp_all
  from mapDbEventToEvent_user[OF u] r(2)
  have "startDate e = db_startDate r" "endDate e = db_endDate r"
    by auto
  with in_window show ?thesis by simp
qed

subsection \<open>Days, hours and minutes\<close>

lemmas ms_defs = millisecondsInDay_def millisecondsInHour_def millisecondsInMinute_def

lemma areIntervalsOverlapping_valid:
  "a \<le> b \<Longrightarrow> c \<le> d \<Longrightarrow> areIntervalsOverlapping ver (a, b) (c, d) = Inr (a < d \<and> c < b)"
  by (cases ver) (auto simp: areIntervalsOverlapping_def)

lemma startOfDay_le_endOfDay: "startOfDay d \<le> endOfDay d"
  by (simp add: endOfDay_def ms_defs)

lemma startOfDay_mult: "startOfDay d = millisecondsInDay * (d div millisecondsInDay)"
  by (simp add: startOfDay_def minus_mod_eq_mult_div)

lemma startOfDay_idem [simp]: "startOfDay (startOfDay d) = startOfDay d"
  by (simp add: startOfDay_mult ms_defs)

lemma startOfDay_inside:
  assumes "startOfDay d \<le> x" "x \<le> endOfDay d"
  shows "startOfDay x = startOfDay d"
proof -
  have "x div millisecondsInDay = d div millisecondsInDay"
  proof (rule int_div_pos_eq)
    show "x = millisecondsInDay * (d div millisecondsInDay) + (x - startOfDay d)"
      by (simp add: startOfDay_mult)
    show "0 \<le> x - startOfDay d" using assms by simp
    show "x - startOfDay d < millisecondsInDay"
      using assms by (simp add: endOfDay_def ms_defs)
  qed
  then show ?thesis by (simp add: startOfDay_mult)
qed

lemma getHours_range: "0 \<le> getHours x \<and> getHours x \<le> 23"
proof -
  have "0 \<le> x mod 86400000" "x mod 86400000 < 86400000" by simp_all
  then have "0 \<le> x mod 86400000 div 3600000 \<and> x mod 86400000 div 3600000 < 24"
    by (simp add: div_less_iff_less_mult pos_imp_zdiv_nonneg_iff)
  then show ?thesis unfolding getHours_def ms_defs by simp
qed

lemma getMinutes_range: "0 \<le> getMinutes x \<and> getMinutes x \<le> 59"
proof -
  have "0 \<le> x mod 3600000" "x mod 3600000 < 3600000" by simp_all
  then have "0 \<le> x mod 3600000 div 60000 \<and> x mod 3600000 div 60000 < 60"
    by (simp add: div_less_iff_less_mult pos_imp_zdiv_nonneg_iff)
  then show ?thesis unfolding getMinutes_def ms_defs by simp
qed

text \<open>Hours and minutes together count the whole minutes since midnight.\<close>

lemma minutes_of_day:
  "getHours x * 60 + getMinutes x = (x mod millisecondsInDay) div millisecondsInMinute"
proof -
  define r where "r = x mod 86400000"
  define h where "h = r div 3600000"
  define p where "p = r mod 3600000"
  define m where "m = p div 60000"
  define q where "q = p mod 60000"
  have xp: "x mod 3600000 = p"
    unfolding p_def r_def by (simp add: mod_mod_cancel)
  have r: "r = 3600000 * h + p" unfolding h_def p_def by simp
  have p: "p = 60000 * m + q" unfolding m_def q_def by simp
  have q: "0 \<le> q" "q < 60000" unfolding q_def by simp_all
  have "r div 60000 = 60 * h + m"
    by (rule int_div_pos_eq[where r = q]) (use r p q in simp_all)
  then show ?thesis
    unfolding getHours_def getMinutes_def ms_defs xp
    by (simp add: r_def h_def m_def)
qed

lemma setHours_mod_day:
  assumes "0 \<le> h" "h \<le> 23" "0 \<le> m" "m \<le> 59"
  shows "setHours d h m 0 0 mod millisecondsInDay
           = h * millisecondsInHour + m * millisecondsInMinute"
proof -
  have "setHours d h m 0 0
          = millisecondsInDay * (d div millisecondsInDay)
            + (h * millisecondsInHour + m * millisecondsInMinute)"
    by (simp add: setHours_def startOfDay_mult)
  moreover have "0 \<le> h * millisecondsInHour + m * millisecondsInMinute"
    "h * millisecondsInHour + m * millisecondsInMinute < millisecondsInDay"
    using assms by (simp_all add: ms_defs)
  ultimately show ?thesis
    by (simp add: mod_pos_pos_trivial)
qed

text \<open>
  \<open>startMinutes\<close> is the minute of the day at which the event starts when it starts on
  the day shown, and 0 otherwise.
\<close>

lemma startMinutes_eq:
  "startMinutes day event =
     (if isSameDay (startDate event) day
      then (startDate event mod millisecondsInDay) div millisecondsInMinute else 0)"
proof -
  define h where "h = (if isSameDay (startDate event) day then getHours (startDate event) else 0)"
  define m where "m = (if isSameDay (startDate event) day then getMinutes (startDate event) else 0)"
  have hm: "0 \<le> h" "h \<le> 23" "0 \<le> m" "m \<le> 59"
    using getHours_range[of "startDate event"] getMinutes_range[of "startDate event"]
    by (auto simp: h_def m_def)
  have "startMinutes day event
          = (setHours (startOfDay day) h m 0 0 mod millisecondsInDay) div millisecondsInMinute"
    unfolding startMinutes_def Let_def h_def m_def by (simp add: minutes_of_day)
  also have "\<dots> = (h * millisecondsInHour + m * millisecondsInMinute) div millisecondsInMinute"
    by (simp add: setHours_mod_day hm)
  also have "\<dots> = h * 60 + m"
    by (simp add: ms_defs)
  finally show ?thesis
    using minutes_of_day[of "startDate event"] by (simp add: h_def m_def)
qed

lemma startMinutes_range: "0 \<le> startMinutes day event \<and> startMinutes day event \<le> 1439"
proof -
  have "0 \<le> startDate event mod 86400000" "startDate event mod 86400000 < 86400000"
    by simp_all
  then have "0 \<le> startDate event mod 86400000 div 60000
      \<and> startDate event mod 86400000 div 60000 < 1440"
    by (simp add: div_less_iff_less_mult pos_imp_zdiv_nonneg_iff)
  then show ?thesis
    unfolding startMinutes_eq ms_defs by simp
qed

subsection \<open>What the two views compute\<close>

lemma ev_positionEvent [simp]: "ev (positionEvent d x) = x"
  by (simp add: positionEvent_def Let_def)

lemma heightPercentage_positionEvent:
  "heightPercentage (positionEvent d x) = max ((of_int (durationMinutes d x) / (24 * 60)) * 100) 1"
  by (simp add: positionEvent_def Let_def)

lemma topPercentage_positionEvent:
  "topPercentage (positionEvent d x) = (of_int (startMinutes d x) / (24 * 60)) * 100"
  by (simp add: positionEvent_def Let_def)

lemma processedEvents_DayView_valid:
  assumes "\<forall>x\<in>set events. startDate x \<le> endDate x"
  shows "processedEvents_DayView ver d events
           = Inr (map (positionEvent d)
                   (filter (\<lambda>x. \<not> allDay x \<and> startOfDay d < endDate x \<and> startDate x < endOfDay d)
                      events))"
proof -
  let ?timed = "filter (\<lambda>event. \<not> allDay event) events"
  let ?q = "\<lambda>p. startOfDay d < endDate (ev p) \<and> startDate (ev p) < endOfDay d"
  have "filter_throwing
          (\<lambda>event. areIntervalsOverlapping ver (startOfDay d, endOfDay d)
                      (startDate (ev event), endDate (ev event)))
          (map (positionEvent d) ?timed)
        = Inr (filter ?q (map (positionEvent d) ?timed))"
  proof (rule filter_throwing_total)
    fix p assume "p \<in> set (map (positionEvent d) ?timed)"
    then obtain x where "x \<in> set events" "p = positionEvent d x" by auto
    then have "startDate (ev p) \<le> endDate (ev p)" using assms by simp
    then show "areIntervalsOverlapping ver (startOfDay d, endOfDay d)
                 (startDate (ev p), endDate (ev p)) = Inr (?q p)"
      by (simp add: areIntervalsOverlapping_valid startOfDay_le_endOfDay)
  qed
  moreover have "filter ?q (map (positionEvent d) ?timed)
      = map (positionEvent d)
          (filter (\<lambda>x. \<not> allDay x \<and> startOfDay d < endDate x \<and> startDate x < endOfDay d) events)"
    by (simp add: filter_map comp_def conj_commute conj_left_commute)
  ultimately show ?thesis
    by (simp add: processedEvents_DayView_def)
qed

lemma processedDayEvents_valid:
  assumes "\<forall>x\<in>set events. startDate x \<le> endDate x"
  shows "processedDayEvents ver events d
           = Inr (map (positionEvent d)
                   (filter (\<lambda>x. \<not> allDay x \<and> startOfDay d < endDate x \<and> startDate x < endOfDay d)
                      events))"
proof -
  have "filter_throwing
          (\<lambda>event. if allDay event then Inr False
                    else areIntervalsOverlapping ver (startOfDay d, endOfDay d)
                           (startDate event, endDate event))
          events
        = Inr (filter (\<lambda>x. \<not> allDay x \<and> startOfDay d < endDate x \<and> startDate x < endOfDay d)
                 events)"
  proof (rule filter_throwing_total)
    fix x assume "x \<in> set events"
    then have "startDate x \<le> endDate x" using assms by simp
    then show "(if allDay x then Inr False
                else areIntervalsOverlapping ver (startOfDay d, endOfDay d)
                       (startDate x, endDate x))
               = Inr (\<not> allDay x \<and> startOfDay d < endDate x \<and> startDate x < endOfDay d)"
      by (simp add: areIntervalsOverlapping_valid startOfDay_le_endOfDay)
  qed
  then show ?thesis
    by (simp add: processedDayEvents_def)
qed

lemma durationMinutes_same_day:
  assumes "isSameDay (startDate e) (endDate e)" "startDate e \<le> endDate e"
  shows "durationMinutes d e = (endDate e - startDate e) div millisecondsInMinute"
  using assms by (simp add: durationMinutes_def differenceInMinutes_def Let_def)


text \<open>An event that lies inside the day shown.\<close>

lemma inside_day_layout:
  assumes "startOfDay d \<le> startDate e" "startDate e \<le> endDate e" "endDate e \<le> endOfDay d"
  shows "durationMinutes d e = (endDate e - startDate e) div millisecondsInMinute"
    and "startMinutes d e = (startDate e - startOfDay d) div millisecondsInMinute"
    and "0 \<le> durationMinutes d e"
    and "startMinutes d e + durationMinutes d e \<le> 1439"
proof -
  have s: "startOfDay (startDate e) = startOfDay d"
    using assms by (intro startOfDay_inside) simp_all
  have t: "startOfDay (endDate e) = startOfDay d"
    using assms by (intro startOfDay_inside) simp_all
  show dur: "durationMinutes d e = (endDate e - startDate e) div millisecondsInMinute"
    using assms s t by (simp add: durationMinutes_same_day isSameDay_def)
  have "startDate e mod millisecondsInDay = startDate e - startOfDay d"
    using s by (simp add: startOfDay_def)
  then show sm: "startMinutes d e = (startDate e - startOfDay d) div millisecondsInMinute"
    using s by (simp add: startMinutes_eq isSameDay_def)
  show "0 \<le> durationMinutes d e"
    using assms unfolding dur ms_defs by (simp add: pos_imp_zdiv_nonneg_iff)
  define a where "a = startDate e - startOfDay d"
  define b where "b = endDate e - startDate e"
  have ab: "0 \<le> a" "0 \<le> b" "a + b \<le> 86399999"
    using assms by (simp_all add: a_def b_def endOfDay_def ms_defs)
  have "60000 * (a div 60000) \<le> a" "60000 * (b div 60000) \<le> b"
    using mult_div_mod_eq[of 60000 a] mult_div_mod_eq[of 60000 b]
      pos_mod_sign[of 60000 a] pos_mod_sign[of 60000 b] by linarith+
  then have "60000 * (a div 60000 + b div 60000) \<le> 86399999"
    using ab by simp
  then have "a div 60000 + b div 60000 \<le> 1439" by simp
  then show "startMinutes d e + durationMinutes d e \<le> 1439"
    unfolding sm dur ms_defs a_def b_def by simp
qed











subsection \<open>Weeks\<close>

lemma getDay_range: "0 \<le> getDay d \<and> getDay d \<le> 6"
  by (simp add: getDay_def)

lemma startOfDay_add_days: "startOfDay (d + k * millisecondsInDay) = startOfDay d + k * millisecondsInDay"
  by (simp add: startOfDay_def)

lemma startOfDay_le: "startOfDay d \<le> d" "d < startOfDay d + millisecondsInDay"
  by (simp_all add: startOfDay_def ms_defs)

subsection \<open>Settings\<close>

lemma or_existing_merged: "a \<noteq> Some [] \<Longrightarrow> or_existing a b = merged a b"
  by (auto simp: or_existing_def merged_def or_default_def split: option.splits)

lemma validPartial_truthy:
  assumes "validPartial p"
  shows "new_theme p \<noteq> Some []" "new_startOfWeek p \<noteq> Some []"
    "new_timeFormat p \<noteq> Some []" "new_eventDisplayMode p \<noteq> Some []"
  using assms by (auto simp: validPartial_def split: option.splits)

lemma merged_nonempty: "a \<noteq> Some [] \<Longrightarrow> b \<noteq> [] \<Longrightarrow> merged a b \<noteq> []"
  by (auto simp: merged_def split: option.splits)

lemma or_default_idem [simp]: "or_default (or_default a ''dots'') ''dots'' = or_default a ''dots''"
  by (simp add: or_default_def)

lemma or_default_nonempty: "a \<noteq> [] \<Longrightarrow> or_default a b = a"
  by (simp add: or_default_def)

lemma or_default_dots_nonempty: "or_default a ''dots'' \<noteq> []"
  by (simp add: or_default_def)

lemma filter_written:
  "filter (\<lambda>r. st_userId r = Some uid)
      (map (\<lambda>r. if st_userId r = Some uid then written c r else r) settings)
     = map (written c) (filter (\<lambda>r. st_userId r = Some uid) settings)"
  by (induction settings) (auto simp: written_def)

lemma toCalendarSettings_written:
  "cs_eventDisplayMode c \<noteq> [] \<Longrightarrow> toCalendarSettings (written c r) = c"
  by (simp add: toCalendarSettings_def written_def or_default_nonempty)

lemma toCalendarSettings_settingsRow:
  "cs_eventDisplayMode c \<noteq> [] \<Longrightarrow> toCalendarSettings (settingsRow i u c) = c"
  by (simp add: toCalendarSettings_def settingsRow_def or_default_nonempty)

lemma mergedSettings_mode_nonempty:
  assumes "validPartial n" "cs_eventDisplayMode base \<noteq> []"
  shows "cs_eventDisplayMode (mergedSettings n base) \<noteq> []"
  using validPartial_truthy(4)[OF assms(1)] assms(2)
  by (simp add: mergedSettings_def merged_nonempty)

lemma getSettings_mode_nonempty: "cs_eventDisplayMode (getSettings userIdArg settings) \<noteq> []"
  by (simp add: getSettings_def Let_def toCalendarSettings_def or_default_dots_nonempty
        split: list.splits)

text \<open>The three ways \<open>updateSettings\<close> can go.\<close>

lemma updateSettings_update:
  assumes "filter (\<lambda>r. st_userId r = Some uid) settings = existing # rest"
    and "uid = (case userIdArg of None \<Rightarrow> defaultUserId | Some u \<Rightarrow> u)"
    and "validPartial n"
  shows "updateSettings n userIdArg users settings =
     Inr (mergedSettings n (getSettings userIdArg settings),
          map (\<lambda>r. if st_userId r = Some uid
                    then written (mergedSettings n (getSettings userIdArg settings)) r
                    else r) settings)"
proof -
  note t = validPartial_truthy[OF assms(3)]
  have base: "getSettings userIdArg settings = toCalendarSettings existing"
    using assms(1) unfolding getSettings_def Let_def assms(2)[symmetric] by simp
  have ne: "merged (new_eventDisplayMode n) (or_default (st_eventDisplayMode existing) ''dots'') \<noteq> []"
    using t(4) by (simp add: merged_nonempty or_default_dots_nonempty)
  show ?thesis
    using assms(1) ne unfolding updateSettings_def Let_def assms(2)[symmetric] base
    by (simp add: or_existing_merged t toCalendarSettings_def or_default_nonempty written_def
          mergedSettings_def)
qed

lemma updateSettings_insert:
  assumes "filter (\<lambda>r. st_userId r = Some uid) settings = []"
    and "uid = (case userIdArg of None \<Rightarrow> defaultUserId | Some u \<Rightarrow> u)"
    and "validPartial n" "uid \<in> set users"
  shows "updateSettings n userIdArg users settings =
     Inr (mergedSettings n (getSettings userIdArg settings),
          settings @ [settingsRow (nextSerial settings) uid
                        (mergedSettings n (getSettings userIdArg settings))])"
proof -
  note t = validPartial_truthy[OF assms(3)]
  have base: "getSettings userIdArg settings
                = \<lparr> cs_theme = ''dark'', cs_startOfWeek = ''sunday'',
                    cs_timeFormat = ''12h'', cs_eventDisplayMode = ''dots'' \<rparr>"
    using assms(1) unfolding getSettings_def Let_def assms(2)[symmetric] by simp
  have ne: "merged (new_eventDisplayMode n) ''dots'' \<noteq> []"
    using t(4) by (simp add: merged_nonempty)
  show ?thesis
    using assms(1,4) ne unfolding updateSettings_def Let_def assms(2)[symmetric] base
    by (simp add: or_existing_merged t toCalendarSettings_def or_default_nonempty
          mergedSettings_def settingsRow_def)
qed

lemma updateSettings_refused:
  assumes "filter (\<lambda>r. st_userId r = Some uid) settings = []"
    and "uid = (case userIdArg of None \<Rightarrow> defaultUserId | Some u \<Rightarrow> u)"
    and "uid \<notin> set users"
  shows "updateSettings n userIdArg users settings
           = Inl DatabaseError"
  using assms(1,3) unfolding updateSettings_def Let_def assms(2)[symmetric] by simp

text \<open>
  \<open>getSettings\<close> returns the stored columns as they are, but for an empty display mode,
  which reads as \<open>dots\<close>.
\<close>

lemma getSettings_stored:
  assumes "filter (\<lambda>r. st_userId r = Some (case userIdArg of None \<Rightarrow> 1 | Some u \<Rightarrow> u)) settings
             = existing # rest"
    and "st_eventDisplayMode existing \<noteq> []"
  shows "getSettings userIdArg settings
           = \<lparr> cs_theme = st_theme existing, cs_startOfWeek = st_startOfWeek existing,
               cs_timeFormat = st_timeFormat existing,
               cs_eventDisplayMode = st_eventDisplayMode existing \<rparr>"
proof -
  have "(case userIdArg of None \<Rightarrow> defaultUserId | Some u \<Rightarrow> u)
          = (case userIdArg of None \<Rightarrow> 1 | Some u \<Rightarrow> u)"
    by (simp add: defaultUserId_def split: option.splits)
  then show ?thesis
    using assms unfolding getSettings_def Let_def
    by (simp add: toCalendarSettings_def or_default_nonempty)
qed

section \<open>The range query and user isolation\<close>

text \<open>
  C10. For every requested user id (the fixed user 1 when the argument is omitted), both
  \<open>getEvents\<close> and \<open>getEventsByDateRange\<close> return normally, and every event they return
  belongs to that user.
\<close>

theorem C10_queries_return_only_the_users_events:
  "(\<exists>es. getEvents userIdArg events = Inr es
        \<and> (\<forall>e\<in>set es. userId e = (case userIdArg of None \<Rightarrow> 1 | Some u \<Rightarrow> u)))
   \<and> (\<exists>es. getEventsByDateRange start end' userIdArg events = Inr es
        \<and> (\<forall>e\<in>set es. userId e = (case userIdArg of None \<Rightarrow> 1 | Some u \<Rightarrow> u)))"
proof -
  let ?u = "case userIdArg of None \<Rightarrow> defaultUserId | Some u \<Rightarrow> u"
  have same: "?u = (case userIdArg of None \<Rightarrow> 1 | Some u \<Rightarrow> u)"
    by (simp add: defaultUserId_def split: option.split)
  have a: "\<exists>es. getEvents userIdArg events = Inr es \<and> (\<forall>e\<in>set es. userId e = ?u)"
    unfolding getEvents_def Let_def
    by (rule map_throwing_users) simp
  have b: "\<exists>es. getEventsByDateRange start end' userIdArg events = Inr es
             \<and> (\<forall>e\<in>set es. userId e = ?u)"
    unfolding getEventsByDateRange_def Let_def
    by (rule map_throwing_users) simp
  show ?thesis using a b unfolding same by blast
qed

text \<open>An instance: a table with events of users 1 and 2 and one row without a user.\<close>

theorem C10_queries_return_only_the_users_events_witness:
  "getEvents (Some 2)
       [eventRow 1 (Some 1) 1000 2000 False, eventRow 2 (Some 2) 1500 2500 False,
        eventRow 3 None 1500 2500 False, eventRow 4 (Some 2) 3000 4000 False]
     = Inr [eventOf 4 2 3000 4000 False, eventOf 2 2 1500 2500 False]
   \<and> userId (eventOf 4 2 3000 4000 False) = 2
   \<and> userId (eventOf 2 2 1500 2500 False) = 2
   \<and> getEventsByDateRange 0 5000 None
       [eventRow 1 (Some 1) 1000 2000 False, eventRow 2 (Some 2) 1500 2500 False,
        eventRow 3 None 1500 2500 False, eventRow 4 (Some 2) 3000 4000 False]
     = Inr [eventOf 1 1 1000 2000 False]
   \<and> userId (eventOf 1 1 1000 2000 False) = 1"
proof -
  let ?tbl = "[eventRow 1 (Some 1) 1000 2000 False, eventRow 2 (Some 2) 1500 2500 False,
             eventRow 3 None 1500 2500 False, eventRow 4 (Some 2) 3000 4000 False]"
  have a: "getEvents (Some 2) ?tbl
             = Inr [eventOf 4 2 3000 4000 False, eventOf 2 2 1500 2500 False]"
    by (simp add: getEvents_def mapDbEventToEvent_def eventRow_def eventOf_def)
  have b: "getEventsByDateRange 0 5000 None ?tbl = Inr [eventOf 1 1 1000 2000 False]"
    by (simp add: getEventsByDateRange_def defaultUserId_def mapDbEventToEvent_def
          eventRow_def eventOf_def)
  show ?thesis
    using C10_queries_return_only_the_users_events [of "Some 2" ?tbl 0 5000]
      C10_queries_return_only_the_users_events [of None ?tbl 0 5000]
    unfolding a b by simp
qed

text \<open>
  C1. The claim asks \<open>getEventsByDateRange\<close> for the events that overlap the window:
  \<open>startDate < end\<close> and \<open>endDate > start\<close>. The query keeps the events that lie inside
  the window instead (\<open>startDate \<ge> start\<close> and \<open>endDate \<le> end\<close>, lemma
  \<open>getEventsByDateRange_inside_window\<close>). For the week of
  2024-03-10 to 2024-03-16, an event of user 1 from 2024-03-09T22:00 to 2024-03-10T02:00
  starts before the window and ends inside it, overlaps it, and is not returned.
\<close>

theorem C1_range_query_drops_event_starting_before_window:
  "getEventsByDateRange (mkDate 2024 3 10 0 0 0 0) (mkDate 2024 3 16 23 59 59 999) None
     [eventRow 1 (Some 1) (mkDate 2024 3 9 22 0 0 0) (mkDate 2024 3 10 2 0 0 0) False] = Inr []
   \<and> mkDate 2024 3 9 22 0 0 0 < mkDate 2024 3 16 23 59 59 999
   \<and> mkDate 2024 3 10 2 0 0 0 > mkDate 2024 3 10 0 0 0 0"
  by (simp add: getEventsByDateRange_def defaultUserId_def eventRow_def mkDate_def
        daysFromCivil_def millisecondsInDay_def millisecondsInHour_def millisecondsInMinute_def)

section \<open>The layout of timed events\<close>

text \<open>
  C2. The claim asks for the event's interval clamped to the day before the height is
  computed, so that the event from 2024-01-01T22:00 to 2024-01-02T02:00 gets the height
  8.33% on each of its two days. The code clamps only the top: the duration of an event
  that ends on another day than it starts is always counted from the event's own start to
  the end of the day shown. On 2024-01-01 the record is at 91.67% with height
  119/1440 = 8.26%; on 2024-01-02 it is at 0% with height 1559/1440 = 108.26%, in the day
  view and in the week view alike (the week from Sunday 2023-12-31 has these two records,
  on its second and third day).
\<close>

theorem C2_second_day_height_not_clamped:
  "positions (processedEvents_DayView ver (mkDate 2024 1 1 0 0 0 0)
       [eventOf 7 1 (mkDate 2024 1 1 22 0 0 0) (mkDate 2024 1 2 2 0 0 0) False])
     = Inr [(275 / 3, 595 / 72)]
   \<and> positions (processedEvents_DayView ver (mkDate 2024 1 2 0 0 0 0)
       [eventOf 7 1 (mkDate 2024 1 1 22 0 0 0) (mkDate 2024 1 2 2 0 0 0) False])
     = Inr [(0, 7795 / 72)]
   \<and> map (\<lambda>day. positions (processedDayEvents ver
              [eventOf 7 1 (mkDate 2024 1 1 22 0 0 0) (mkDate 2024 1 2 2 0 0 0) False] day))
       (weekDays (mkDate 2024 1 1 12 0 0 0))
     = [Inr [], Inr [(275 / 3, 595 / 72)], Inr [(0, 7795 / 72)], Inr [], Inr [], Inr [], Inr []]
   \<and> (7795 / 72 :: rat) > 100"
  by (cases ver; hypsubst; code_simp)




text \<open>
  C4, as the claim states it, fails because of the floor on the height: an event from
  23:50 to 23:59 lies inside its day, sits at 99.31% and gets the floor height 1, so top
  plus height is 100.31.
\<close>

theorem C4_floor_pushes_past_100:
  "startOfDay (mkDate 2024 1 1 0 0 0 0) \<le> mkDate 2024 1 1 23 50 0 0
   \<and> mkDate 2024 1 1 23 50 0 0 < mkDate 2024 1 1 23 59 0 0
   \<and> mkDate 2024 1 1 23 59 0 0 \<le> endOfDay (mkDate 2024 1 1 0 0 0 0)
   \<and> positions (processedEvents_DayView DateFns2 (mkDate 2024 1 1 0 0 0 0)
        [eventOf 7 1 (mkDate 2024 1 1 23 50 0 0) (mkDate 2024 1 1 23 59 0 0) False])
      = Inr [(3575 / 36, 1)]
   \<and> positions (processedEvents_DayView DateFns3 (mkDate 2024 1 1 0 0 0 0)
        [eventOf 7 1 (mkDate 2024 1 1 23 50 0 0) (mkDate 2024 1 1 23 59 0 0) False])
      = Inr [(3575 / 36, 1)]
   \<and> positions (processedDayEvents DateFns3
        [eventOf 7 1 (mkDate 2024 1 1 23 50 0 0) (mkDate 2024 1 1 23 59 0 0) False]
        (mkDate 2024 1 1 0 0 0 0))
      = Inr [(3575 / 36, 1)]
   \<and> (3575 / 36 + 1 :: rat) > 100"
  by code_simp

text \<open>
  C4, amended. In the fixed-offset clock of this model (days of 24 hours; a day with a
  clock change is left out), a timed event of positive duration that lies inside day \<open>d\<close>
  has one positioned record there, in both views. Its top is at least 0, and top plus the
  proportional height (before the floor) is at most 100. Top plus height is at most 100
  exactly when the event lasts 15 whole minutes or more or starts at 23:45 or earlier
  (\<open>startMinutes \<le> 1425\<close>). An event shorter than 15 whole minutes has the floor height
  1; when it starts after 23:45, top plus height is above 100, and it always stays below
  101.
\<close>

theorem C4_inside_day_bounds:
  assumes "\<not> allDay e" "startOfDay d \<le> startDate e" "startDate e < endDate e"
    "endDate e \<le> endOfDay d"
  shows "processedEvents_DayView ver d [e] = Inr [positionEvent d e]
       \<and> processedDayEvents ver [e] d = Inr [positionEvent d e]
       \<and> startMinutes d e = (startDate e - startOfDay d) div millisecondsInMinute
       \<and> durationMinutes d e = (endDate e - startDate e) div millisecondsInMinute
       \<and> 0 \<le> topPercentage (positionEvent d e)
       \<and> topPercentage (positionEvent d e)
           + (of_int (durationMinutes d e) / (24 * 60)) * 100 \<le> 100
       \<and> (topPercentage (positionEvent d e) + heightPercentage (positionEvent d e) \<le> 100
            \<longleftrightarrow> 15 \<le> durationMinutes d e \<or> startMinutes d e \<le> 1425)
       \<and> (durationMinutes d e < 15 \<longrightarrow> heightPercentage (positionEvent d e) = 1)
       \<and> topPercentage (positionEvent d e) + heightPercentage (positionEvent d e) < 101"
proof -
  have le: "startDate e \<le> endDate e" using assms by simp
  have sel: "startOfDay d < endDate e" "startDate e < endOfDay d"
    using assms by simp_all
  have views: "processedEvents_DayView ver d [e] = Inr [positionEvent d e]"
    "processedDayEvents ver [e] d = Inr [positionEvent d e]"
    using assms(1) sel le
    by (simp_all add: processedEvents_DayView_valid processedDayEvents_valid)
  note inside = inside_day_layout[OF assms(2) le assms(4)]
  define S :: rat where "S = of_int (startMinutes d e)"
  define L :: rat where "L = of_int (durationMinutes d e)"
  have "0 \<le> startMinutes d e" using startMinutes_range by simp
  then have S: "0 \<le> S" by (simp add: S_def)
  have "0 \<le> durationMinutes d e" "startMinutes d e + durationMinutes d e \<le> 1439"
    using inside by simp_all
  then have L: "0 \<le> L" and SL: "S + L \<le> 1439"
    unfolding S_def L_def by (simp_all flip: of_int_add)
  have top: "topPercentage (positionEvent d e) = (S / (24 * 60)) * 100"
    by (simp add: topPercentage_positionEvent S_def)
  have height: "heightPercentage (positionEvent d e) = max ((L / (24 * 60)) * 100) 1"
    by (simp add: heightPercentage_positionEvent L_def)
  have a: "0 \<le> (S / (24 * 60)) * 100" using S by simp
  have b: "(S / (24 * 60)) * 100 + (L / (24 * 60)) * 100 \<le> 100" using SL by simp
  have long: "max ((L / (24 * 60)) * 100) 1 = (L / (24 * 60)) * 100"
    if "15 \<le> durationMinutes d e"
  proof -
    from that have "15 \<le> L" unfolding L_def by simp
    then show ?thesis by (simp add: max_def)
  qed
  have short: "max ((L / (24 * 60)) * 100) 1 = 1" if "durationMinutes d e < 15"
  proof -
    from that have "durationMinutes d e \<le> 14" by simp
    then have "L \<le> 14" unfolding L_def by simp
    then show ?thesis by (simp add: max_def)
  qed
  have c: "(S / (24 * 60)) * 100 + max ((L / (24 * 60)) * 100) 1 \<le> 100
             \<longleftrightarrow> 15 \<le> durationMinutes d e \<or> startMinutes d e \<le> 1425"
  proof (cases "15 \<le> durationMinutes d e")
    case True
    then show ?thesis using long b by simp
  next
    case False
    then have h: "max ((L / (24 * 60)) * 100) 1 = 1" using short by simp
    have "(S / (24 * 60)) * 100 + 1 \<le> 100 \<longleftrightarrow> startMinutes d e \<le> 1425"
    proof
      assume "(S / (24 * 60)) * 100 + 1 \<le> 100"
      then have "S < 1426" by simp
      then have "startMinutes d e < 1426" unfolding S_def by simp
      then show "startMinutes d e \<le> 1425" by simp
    next
      assume "startMinutes d e \<le> 1425"
      then have "S \<le> 1425" unfolding S_def by simp
      then show "(S / (24 * 60)) * 100 + 1 \<le> 100" by simp
    qed
    then show ?thesis using False h by simp
  qed
  have e: "(S / (24 * 60)) * 100 + max ((L / (24 * 60)) * 100) 1 < 101"
  proof -
    have "S \<le> 1439" using SL L by simp
    then have "(S / (24 * 60)) * 100 + 1 < 101" by simp
    moreover have "(S / (24 * 60)) * 100 + (L / (24 * 60)) * 100 < 101" using b by simp
    ultimately show ?thesis by (simp add: max_def)
  qed
  have f: "durationMinutes d e < 15 \<longrightarrow> max ((L / (24 * 60)) * 100) 1 = 1"
    using short by simp
  have g: "(S / (24 * 60)) * 100 + (of_int (durationMinutes d e) / (24 * 60)) * 100 \<le> 100"
    using b by (simp add: L_def)
  show ?thesis
    unfolding top height
    using views inside(1,2) a g c f e by blast
qed

text \<open>
  An instance: an event of five minutes at 10:00 has the floor height and stays inside
  the axis.
\<close>

theorem C4_inside_day_bounds_witness:
  "processedEvents_DayView DateFns3 (mkDate 2024 1 1 0 0 0 0)
       [eventOf 7 1 (mkDate 2024 1 1 10 0 0 0) (mkDate 2024 1 1 10 5 0 0) False]
     = Inr [positionEvent (mkDate 2024 1 1 0 0 0 0)
              (eventOf 7 1 (mkDate 2024 1 1 10 0 0 0) (mkDate 2024 1 1 10 5 0 0) False)]
   \<and> durationMinutes (mkDate 2024 1 1 0 0 0 0)
        (eventOf 7 1 (mkDate 2024 1 1 10 0 0 0) (mkDate 2024 1 1 10 5 0 0) False) = 5
   \<and> startMinutes (mkDate 2024 1 1 0 0 0 0)
        (eventOf 7 1 (mkDate 2024 1 1 10 0 0 0) (mkDate 2024 1 1 10 5 0 0) False) = 600
   \<and> heightPercentage (positionEvent (mkDate 2024 1 1 0 0 0 0)
              (eventOf 7 1 (mkDate 2024 1 1 10 0 0 0) (mkDate 2024 1 1 10 5 0 0) False)) = 1
   \<and> 0 \<le> topPercentage (positionEvent (mkDate 2024 1 1 0 0 0 0)
              (eventOf 7 1 (mkDate 2024 1 1 10 0 0 0) (mkDate 2024 1 1 10 5 0 0) False))
   \<and> topPercentage (positionEvent (mkDate 2024 1 1 0 0 0 0)
              (eventOf 7 1 (mkDate 2024 1 1 10 0 0 0) (mkDate 2024 1 1 10 5 0 0) False))
       + heightPercentage (positionEvent (mkDate 2024 1 1 0 0 0 0)
              (eventOf 7 1 (mkDate 2024 1 1 10 0 0 0) (mkDate 2024 1 1 10 5 0 0) False))
       \<le> 100"
proof -
  let ?d = "mkDate 2024 1 1 0 0 0 0"
  let ?e = "eventOf 7 1 (mkDate 2024 1 1 10 0 0 0) (mkDate 2024 1 1 10 5 0 0) False"
  have h1: "\<not> allDay ?e" by (simp add: eventOf_def)
  have h2: "startOfDay ?d \<le> startDate ?e" by code_simp
  have h3: "startDate ?e < endDate ?e" by code_simp
  have h4: "endDate ?e \<le> endOfDay ?d" by code_simp
  have dur: "durationMinutes ?d ?e = 5" by code_simp
  have sm: "startMinutes ?d ?e = 600" by code_simp
  from C4_inside_day_bounds [OF h1 h2 h3 h4, of DateFns3]
  show ?thesis unfolding dur sm by simp
qed

text \<open>
  Every positioned record of the day view and of the week view has the height
  \<open>max((durationMinutes / 1440) * 100, 1)\<close> for the duration that the code computes, hence
  at least the floor 1. An event of one minute within a day has the proportional height
  100/1440 = 5/72 (about 0.07) and gets the height 1.
\<close>

lemma view_records_height:
  "(processedEvents_DayView ver currentDate events = Inr rs \<longrightarrow>
      (\<forall>r\<in>set rs. heightPercentage r
                      = max ((of_int (durationMinutes currentDate (ev r)) / (24 * 60)) * 100) 1
                  \<and> 1 \<le> heightPercentage r))
   \<and> (processedDayEvents ver events day = Inr rs' \<longrightarrow>
      (\<forall>r\<in>set rs'. heightPercentage r
                      = max ((of_int (durationMinutes day (ev r)) / (24 * 60)) * 100) 1
                  \<and> 1 \<le> heightPercentage r))
   \<and> (processedEvents_WeekView ver currentDate events = Inr byDay \<longrightarrow>
      (\<forall>entry\<in>set byDay. \<forall>r\<in>set (snd entry). 1 \<le> heightPercentage r))
   \<and> (isSameDay (startDate e) (endDate e) \<and> endDate e = startDate e + millisecondsInMinute \<longrightarrow>
        (of_int (durationMinutes day e) / (24 * 60)) * 100 = (5 / 72 :: rat)
        \<and> heightPercentage (positionEvent day e) = 1)"
proof -
  have day_view: "heightPercentage r
                      = max ((of_int (durationMinutes currentDate (ev r)) / (24 * 60)) * 100) 1
                  \<and> 1 \<le> heightPercentage r"
    if "processedEvents_DayView ver currentDate events = Inr rs" "r \<in> set rs" for r
  proof -
    from that have "r \<in> set (map (positionEvent currentDate) (filter (\<lambda>event. \<not> allDay event) events))"
      unfolding processedEvents_DayView_def Let_def
      using filter_throwing_subset by blast
    then obtain x where "r = positionEvent currentDate x" by auto
    then show ?thesis by (simp add: heightPercentage_positionEvent)
  qed
  have week_day: "heightPercentage r
                      = max ((of_int (durationMinutes d (ev r)) / (24 * 60)) * 100) 1
                  \<and> 1 \<le> heightPercentage r"
    if "processedDayEvents ver events d = Inr xs" "r \<in> set xs" for r d xs
  proof -
    from that obtain x where "r = positionEvent d x"
      unfolding processedDayEvents_def Let_def
      by (auto split: sum.splits)
    then show ?thesis by (simp add: heightPercentage_positionEvent)
  qed
  have week: "1 \<le> heightPercentage r"
    if "processedEvents_WeekView ver currentDate events = Inr byDay"
      "entry \<in> set byDay" "r \<in> set (snd entry)" for entry r
  proof -
    from that(1,2) obtain d where
      "(case processedDayEvents ver events d of
          Inl e \<Rightarrow> Inl e
        | Inr processedDay \<Rightarrow> Inr (format_yyyy_MM_dd d, processedDay)) = Inr entry"
      unfolding processedEvents_WeekView_def
      using map_throwing_source by fastforce
    then have "processedDayEvents ver events d = Inr (snd entry)"
      by (auto split: sum.splits)
    then show ?thesis using week_day that(3) by blast
  qed
  have minute: "(of_int (durationMinutes day e) / (24 * 60)) * 100 = (5 / 72 :: rat)
        \<and> heightPercentage (positionEvent day e) = 1"
    if "isSameDay (startDate e) (endDate e)" "endDate e = startDate e + millisecondsInMinute"
  proof -
    have "durationMinutes day e = 1"
      using that by (simp add: durationMinutes_same_day ms_defs)
    then show ?thesis by (simp add: heightPercentage_positionEvent)
  qed
  show ?thesis using day_view week_day week minute by blast
qed


text \<open>
  C6. The claim gives every positioned record the height
  \<open>max((durationMinutes / 1440) * 100, 1)\<close>, where \<open>durationMinutes\<close> is the duration of
  the event's interval clamped to the day. The floor is there (an event from 10:00 to 10:01
  gets the height 1), but the duration is not the clamped one for an event that ends on
  another day than it starts, the defect of C2: on 2024-01-02 the event from
  2024-01-01T22:00 to 2024-01-02T02:00 has the clamped duration 120 minutes, for which the
  claim's height is 25/3 = 8.33, and the code computes 1559 minutes and the height
  7795/72 = 108.26, in the day view and in the week view.
\<close>

theorem C6_height_not_of_clamped_duration:
  "positions (processedEvents_DayView ver (mkDate 2024 1 2 0 0 0 0)
       [eventOf 7 1 (mkDate 2024 1 1 22 0 0 0) (mkDate 2024 1 2 2 0 0 0) False])
     = Inr [(0, 7795 / 72)]
   \<and> positions (processedDayEvents ver
       [eventOf 7 1 (mkDate 2024 1 1 22 0 0 0) (mkDate 2024 1 2 2 0 0 0) False]
       (mkDate 2024 1 2 0 0 0 0))
     = Inr [(0, 7795 / 72)]
   \<and> durationMinutes (mkDate 2024 1 2 0 0 0 0)
       (eventOf 7 1 (mkDate 2024 1 1 22 0 0 0) (mkDate 2024 1 2 2 0 0 0) False) = 1559
   \<and> specDurationMinutes (mkDate 2024 1 2 0 0 0 0)
       (eventOf 7 1 (mkDate 2024 1 1 22 0 0 0) (mkDate 2024 1 2 2 0 0 0) False) = 120
   \<and> max ((of_int (specDurationMinutes (mkDate 2024 1 2 0 0 0 0)
              (eventOf 7 1 (mkDate 2024 1 1 22 0 0 0) (mkDate 2024 1 2 2 0 0 0) False))
            / (24 * 60)) * 100) 1 = (25 / 3 :: rat)
   \<and> positions (processedEvents_DayView ver (mkDate 2024 1 1 0 0 0 0)
       [eventOf 9 1 (mkDate 2024 1 1 10 0 0 0) (mkDate 2024 1 1 10 1 0 0) False])
     = Inr [(125 / 3, 1)]"
  by (cases ver; hypsubst; code_simp)

section \<open>All-day events\<close>

text \<open>
  C7. The claim asks that an all-day event is selected for a day by the day's boundaries
  alone, whatever the time of day of the date the view is anchored at. The week view does
  so (\<open>getAllDayEventsForDay\<close> tests the overlap with the day from \<open>startOfDay\<close> to
  \<open>endOfDay\<close>). The day view tests whether \<open>currentDate\<close> itself, with its time of day,
  lies within the event: an all-day event stored from 09:00 to 17:00 of 2024-01-01 is not
  shown when the day is viewed with the anchor at 08:00 and is shown with the anchor at
  12:00 of the same day.
\<close>

theorem C7_day_view_all_day_selection_depends_on_anchor_time:
  "allDayEvents ver (mkDate 2024 1 1 8 0 0 0)
      [eventOf 7 1 (mkDate 2024 1 1 9 0 0 0) (mkDate 2024 1 1 17 0 0 0) True] = Inr []
   \<and> allDayEvents ver (mkDate 2024 1 1 12 0 0 0)
      [eventOf 7 1 (mkDate 2024 1 1 9 0 0 0) (mkDate 2024 1 1 17 0 0 0) True]
      = Inr [eventOf 7 1 (mkDate 2024 1 1 9 0 0 0) (mkDate 2024 1 1 17 0 0 0) True]
   \<and> getAllDayEventsForDay ver
      [eventOf 7 1 (mkDate 2024 1 1 9 0 0 0) (mkDate 2024 1 1 17 0 0 0) True]
      (mkDate 2024 1 1 8 0 0 0)
      = Inr [eventOf 7 1 (mkDate 2024 1 1 9 0 0 0) (mkDate 2024 1 1 17 0 0 0) True]
   \<and> getAllDayEventsForDay ver
      [eventOf 7 1 (mkDate 2024 1 1 9 0 0 0) (mkDate 2024 1 1 17 0 0 0) True]
      (mkDate 2024 1 1 12 0 0 0)
      = Inr [eventOf 7 1 (mkDate 2024 1 1 9 0 0 0) (mkDate 2024 1 1 17 0 0 0) True]
   \<and> startOfDay (mkDate 2024 1 1 8 0 0 0) = startOfDay (mkDate 2024 1 1 12 0 0 0)"
  by (cases ver; hypsubst; code_simp)

section \<open>The week range\<close>

text \<open>
  What \<open>dateRange\<close> computes for the week: the window of the specification for a week that
  starts on Sunday. It starts on a Sunday, at 00:00:00.000, at or before the anchor and
  less than 7 days before it, and it ends 6 days and 23:59:59.999 after its start.
\<close>

lemma dateRange_week_is_sunday_week:
  "dateRange Week anchor = specWeekWindow Sunday anchor
   \<and> getDay (fst (dateRange Week anchor)) = 0
   \<and> fst (dateRange Week anchor) mod millisecondsInDay = 0
   \<and> fst (dateRange Week anchor) \<le> anchor
   \<and> anchor < fst (dateRange Week anchor) + 7 * millisecondsInDay
   \<and> snd (dateRange Week anchor)
       = fst (dateRange Week anchor) + 6 * millisecondsInDay + (millisecondsInDay - 1)
   \<and> dateRange Week (mkDate 2024 3 15 0 0 0 0)
       = (mkDate 2024 3 10 0 0 0 0, mkDate 2024 3 16 23 59 59 999)"
proof -
  define g where "g = getDay anchor"
  have g: "0 \<le> g" "g \<le> 6" using getDay_range[of anchor] by (simp_all add: g_def)
  have start: "fst (dateRange Week anchor) = startOfDay anchor - g * millisecondsInDay"
    using g by (simp add: dateRange_def startOfWeek_def Let_def g_def)
  have "endOfWeek anchor 0 = endOfDay (anchor + (6 - g) * millisecondsInDay)"
    using g by (simp add: endOfWeek_def Let_def g_def)
  also have "\<dots> = startOfDay anchor + (6 - g) * millisecondsInDay + (millisecondsInDay - 1)"
    unfolding endOfDay_def startOfDay_add_days by (simp add: ms_defs)
  finally have end': "snd (dateRange Week anchor)
       = fst (dateRange Week anchor) + 6 * millisecondsInDay + (millisecondsInDay - 1)"
    unfolding start by (simp add: dateRange_def algebra_simps)
  have spec: "dateRange Week anchor = specWeekWindow Sunday anchor"
    using start end' g
    by (simp add: specWeekWindow_def Let_def g_def prod_eq_iff)
  have m: "fst (dateRange Week anchor) = millisecondsInDay * (anchor div millisecondsInDay - g)"
    unfolding start startOfDay_mult by (simp add: algebra_simps)
  have "fst (dateRange Week anchor) div millisecondsInDay = anchor div millisecondsInDay - g"
    unfolding m by (simp add: ms_defs)
  moreover have "(k - (k + 4) mod 7 + 4) mod 7 = 0" for k :: int
    by presburger
  ultimately have day0: "getDay (fst (dateRange Week anchor)) = 0"
    by (simp add: getDay_def g_def)
  have mod0: "fst (dateRange Week anchor) mod millisecondsInDay = 0"
    unfolding m by simp
  have le: "fst (dateRange Week anchor) \<le> anchor"
    unfolding start using g startOfDay_le(1)[of anchor] by (simp add: ms_defs)
  have lt: "anchor < fst (dateRange Week anchor) + 7 * millisecondsInDay"
    unfolding start using g startOfDay_le(2)[of anchor] by (simp add: ms_defs)
  have ex: "dateRange Week (mkDate 2024 3 15 0 0 0 0)
       = (mkDate 2024 3 10 0 0 0 0, mkDate 2024 3 16 23 59 59 999)"
    by code_simp
  show ?thesis using spec day0 mod0 le lt end' ex by blast
qed


text \<open>
  C5. The claim asks for the week that starts on the configured first day of the week.
  The settings hold that day (\<open>startOfWeek\<close>, \<open>sunday\<close> or \<open>monday\<close>; the settings
  menu offers the choice and \<open>updateSettings\<close> stores it), but \<open>dateRange\<close> asks for the
  week with the literal \<open>weekStartsOn: 0\<close> and reads no setting. With \<open>monday\<close> stored
  for the user, the window of 2024-03-15, a Friday, must begin on Monday 2024-03-11; the
  code's range begins on Sunday 2024-03-10.
\<close>

theorem C5_week_range_ignores_monday_setting:
  "cs_startOfWeek (getSettings None
       [\<lparr> st_id = 1, st_userId = Some 1, st_theme = ''dark'', st_startOfWeek = ''monday'',
          st_timeFormat = ''12h'', st_eventDisplayMode = ''dots'' \<rparr>]) = ''monday''
   \<and> dateRange Week (mkDate 2024 3 15 0 0 0 0)
     = (mkDate 2024 3 10 0 0 0 0, mkDate 2024 3 16 23 59 59 999)
   \<and> specWeekWindow Monday (mkDate 2024 3 15 0 0 0 0)
     = (mkDate 2024 3 11 0 0 0 0, mkDate 2024 3 17 23 59 59 999)
   \<and> getDay (mkDate 2024 3 11 0 0 0 0) = 1
   \<and> getDay (mkDate 2024 3 10 0 0 0 0) = 0
   \<and> dateRange Week (mkDate 2024 3 15 0 0 0 0) \<noteq> specWeekWindow Monday (mkDate 2024 3 15 0 0 0 0)"
  by code_simp

section \<open>Settings\<close>

text \<open>
  C8, as the claim states it, fails for a user id without a row in \<open>users\<close>: such a
  user has no row in \<open>settings\<close> either, the \<open>insert\<close> violates the foreign key of
  \<open>settings.user_id\<close>, \<open>updateSettings\<close> throws, and the route answers with status 500
  and stores nothing. Only the user 1 exists; the update \<open>{theme: "light"}\<close> for the user
  99 is refused.
\<close>

theorem C8_insert_for_unknown_user_is_refused:
  "updateSettings
       \<lparr> new_theme = Some ''light'', new_startOfWeek = None, new_timeFormat = None,
         new_eventDisplayMode = None \<rparr>
       (Some 99) [1] []
     = Inl DatabaseError
   \<and> post_api_settings (Some 99)
       \<lparr> new_theme = Some ''light'', new_startOfWeek = None, new_timeFormat = None,
         new_eventDisplayMode = None \<rparr>
       [1] []
     = (JsonError 500 ''Failed to update settings'', [])
   \<and> validPartial
       \<lparr> new_theme = Some ''light'', new_startOfWeek = None, new_timeFormat = None,
         new_eventDisplayMode = None \<rparr>"
  by code_simp

text \<open>
  C8, amended. Let the present fields of the partial record hold values of their
  enumerations, and let \<open>base\<close> be what \<open>getSettings\<close> returns before the call (the stored
  values, or the defaults when the user has no row). When the user has a row in \<open>settings\<close>,
  \<open>updateSettings\<close> returns the merge of the partial over \<open>base\<close> (a field that is present
  overrides, a field that is omitted keeps its value) and writes it into the rows of the
  user, every other row unchanged. When the user has no row in \<open>settings\<close> but has one in
  \<open>users\<close>, it returns the merge and appends one row for the user that holds it. When the
  user has a row in neither table, it throws and the table is not changed. Whenever it
  returns, \<open>getSettings\<close> returns the same settings after the call.
\<close>

theorem C8_updateSettings_read_modify_write:
  assumes "validPartial newSettings"
  shows
    "updateSettings newSettings userIdArg users settings
       = (if \<exists>r\<in>set settings. st_userId r = Some (case userIdArg of None \<Rightarrow> 1 | Some u \<Rightarrow> u)
          then Inr (mergedSettings newSettings (getSettings userIdArg settings),
                    map (\<lambda>r. if st_userId r = Some (case userIdArg of None \<Rightarrow> 1 | Some u \<Rightarrow> u)
                              then written
                                     (mergedSettings newSettings (getSettings userIdArg settings)) r
                              else r) settings)
          else if (case userIdArg of None \<Rightarrow> 1 | Some u \<Rightarrow> u) \<in> set users
          then Inr (mergedSettings newSettings (getSettings userIdArg settings),
                    settings @
                      [settingsRow (nextSerial settings)
                         (case userIdArg of None \<Rightarrow> 1 | Some u \<Rightarrow> u)
                         (mergedSettings newSettings (getSettings userIdArg settings))])
          else Inl DatabaseError)
     \<and> (\<forall>result settings'.
           updateSettings newSettings userIdArg users settings = Inr (result, settings')
             \<longrightarrow> getSettings userIdArg settings' = result)"
proof -
  define uid where "uid = (case userIdArg of None \<Rightarrow> defaultUserId | Some u \<Rightarrow> u)"
  have uid': "(case userIdArg of None \<Rightarrow> 1 | Some u \<Rightarrow> u) = uid"
    by (simp add: uid_def defaultUserId_def split: option.splits)
  define m where "m = mergedSettings newSettings (getSettings userIdArg settings)"
  have ne: "cs_eventDisplayMode m \<noteq> []"
    unfolding m_def using mergedSettings_mode_nonempty[OF assms getSettings_mode_nonempty] .
  show ?thesis
  proof (cases "filter (\<lambda>r. st_userId r = Some uid) settings")
    case Nil
    then have none: "\<not> (\<exists>r\<in>set settings. st_userId r = Some uid)"
      by (simp add: filter_empty_conv)
    show ?thesis
    proof (cases "uid \<in> set users")
      case True
      have upd: "updateSettings newSettings userIdArg users settings
                   = Inr (m, settings @ [settingsRow (nextSerial settings) uid m])"
        unfolding m_def using updateSettings_insert[OF Nil uid_def assms True] .
      have "filter (\<lambda>r. st_userId r = Some uid)
              (settings @ [settingsRow (nextSerial settings) uid m])
            = [settingsRow (nextSerial settings) uid m]"
        using Nil by (simp add: settingsRow_def)
      then have after: "getSettings userIdArg
                          (settings @ [settingsRow (nextSerial settings) uid m]) = m"
        unfolding getSettings_def Let_def uid_def[symmetric]
        using toCalendarSettings_settingsRow[OF ne] by simp
      show ?thesis
        unfolding uid' m_def[symmetric] upd using none True after by simp
    next
      case False
      have upd: "updateSettings newSettings userIdArg users settings
                   = Inl DatabaseError"
        using updateSettings_refused[OF Nil uid_def False] .
      show ?thesis
        unfolding uid' upd using none False by simp
    qed
  next
    case (Cons existing rest)
    then have some: "\<exists>r\<in>set settings. st_userId r = Some uid"
      using filter_empty_conv[of "\<lambda>r. st_userId r = Some uid" settings] by auto
    have upd: "updateSettings newSettings userIdArg users settings
                 = Inr (m, map (\<lambda>r. if st_userId r = Some uid then written m r else r) settings)"
      unfolding m_def using updateSettings_update[OF Cons uid_def assms] .
    have after: "getSettings userIdArg
                   (map (\<lambda>r. if st_userId r = Some uid then written m r else r) settings) = m"
      unfolding getSettings_def Let_def uid_def[symmetric] filter_written Cons
      using toCalendarSettings_written[OF ne] by simp
    show ?thesis
      unfolding uid' m_def[symmetric] upd using some after by simp
  qed
qed

text \<open>
  An instance: the update \<open>{theme: "light"}\<close> over the stored row of user 1 keeps the week
  start \<open>monday\<close>, the time format and the display mode.
\<close>

theorem C8_updateSettings_read_modify_write_witness:
  "validPartial \<lparr> new_theme = Some ''light'', new_startOfWeek = None, new_timeFormat = None,
       new_eventDisplayMode = None \<rparr>
   \<and> updateSettings
       \<lparr> new_theme = Some ''light'', new_startOfWeek = None, new_timeFormat = None,
         new_eventDisplayMode = None \<rparr>
       None [1]
       [\<lparr> st_id = 1, st_userId = Some 1, st_theme = ''dark'', st_startOfWeek = ''monday'',
          st_timeFormat = ''12h'', st_eventDisplayMode = ''box'' \<rparr>]
     = Inr (\<lparr> cs_theme = ''light'', cs_startOfWeek = ''monday'', cs_timeFormat = ''12h'',
              cs_eventDisplayMode = ''box'' \<rparr>,
            [\<lparr> st_id = 1, st_userId = Some 1, st_theme = ''light'', st_startOfWeek = ''monday'',
               st_timeFormat = ''12h'', st_eventDisplayMode = ''box'' \<rparr>])
   \<and> getSettings None
       [\<lparr> st_id = 1, st_userId = Some 1, st_theme = ''light'', st_startOfWeek = ''monday'',
          st_timeFormat = ''12h'', st_eventDisplayMode = ''box'' \<rparr>]
     = \<lparr> cs_theme = ''light'', cs_startOfWeek = ''monday'', cs_timeFormat = ''12h'',
         cs_eventDisplayMode = ''box'' \<rparr>"
proof -
  let ?p = "\<lparr> new_theme = Some ''light'', new_startOfWeek = None, new_timeFormat = None,
       new_eventDisplayMode = None \<rparr>"
  let ?s = "[\<lparr> st_id = 1, st_userId = Some 1, st_theme = ''dark'', st_startOfWeek = ''monday'',
          st_timeFormat = ''12h'', st_eventDisplayMode = ''box'' \<rparr>]"
  let ?c = "\<lparr> cs_theme = ''light'', cs_startOfWeek = ''monday'', cs_timeFormat = ''12h'',
              cs_eventDisplayMode = ''box'' \<rparr>"
  let ?s' = "[\<lparr> st_id = 1, st_userId = Some 1, st_theme = ''light'', st_startOfWeek = ''monday'',
               st_timeFormat = ''12h'', st_eventDisplayMode = ''box'' \<rparr>]"
  have v: "validPartial ?p" by (simp add: validPartial_def)
  have u: "updateSettings ?p None [1] ?s = Inr (?c, ?s')"
    by code_simp
  from C8_updateSettings_read_modify_write [OF v, of None "[1]" ?s]
  have "getSettings None ?s' = ?c"
    unfolding u by blast
  with v u show ?thesis by simp
qed

text \<open>
  C9. The claim asks that a value outside its enumeration is rejected before it reaches
  the storage. The route \<open>POST /api/settings\<close> passes the request body to
  \<open>updateSettings\<close> without parsing it with \<open>calendarSettingsSchema\<close>, and
  \<open>updateSettings\<close> stores any non-empty string: for the user 1 the body
  \<open>{"theme": "blue"}\<close> is answered with status 200, and \<open>blue\<close> is stored and returned
  from then on, whether the user had a row of settings (the \<open>update\<close>) or none (the
  \<open>insert\<close>).
\<close>

theorem C9_invalid_theme_is_stored:
  "post_api_settings None
       \<lparr> new_theme = Some ''blue'', new_startOfWeek = None, new_timeFormat = None,
         new_eventDisplayMode = None \<rparr> [1] []
     = (Json 200 \<lparr> cs_theme = ''blue'', cs_startOfWeek = ''sunday'', cs_timeFormat = ''12h'',
                   cs_eventDisplayMode = ''dots'' \<rparr>,
        [\<lparr> st_id = 1, st_userId = Some 1, st_theme = ''blue'', st_startOfWeek = ''sunday'',
           st_timeFormat = ''12h'', st_eventDisplayMode = ''dots'' \<rparr>])
   \<and> post_api_settings None
       \<lparr> new_theme = Some ''blue'', new_startOfWeek = None, new_timeFormat = None,
         new_eventDisplayMode = None \<rparr> [1]
       [\<lparr> st_id = 1, st_userId = Some 1, st_theme = ''dark'', st_startOfWeek = ''sunday'',
          st_timeFormat = ''12h'', st_eventDisplayMode = ''dots'' \<rparr>]
     = (Json 200 \<lparr> cs_theme = ''blue'', cs_startOfWeek = ''sunday'', cs_timeFormat = ''12h'',
                   cs_eventDisplayMode = ''dots'' \<rparr>,
        [\<lparr> st_id = 1, st_userId = Some 1, st_theme = ''blue'', st_startOfWeek = ''sunday'',
           st_timeFormat = ''12h'', st_eventDisplayMode = ''dots'' \<rparr>])
   \<and> getSettings None
       [\<lparr> st_id = 1, st_userId = Some 1, st_theme = ''blue'', st_startOfWeek = ''sunday'',
          st_timeFormat = ''12h'', st_eventDisplayMode = ''dots'' \<rparr>]
     = \<lparr> cs_theme = ''blue'', cs_startOfWeek = ''sunday'', cs_timeFormat = ''12h'',
         cs_eventDisplayMode = ''dots'' \<rparr>
   \<and> \<not> validPartial
         \<lparr> new_theme = Some ''blue'', new_startOfWeek = None, new_timeFormat = None,
           new_eventDisplayMode = None \<rparr>"
  by code_simp

end
